theory Spec2Isabelle
  imports Main "HOL-Library.Word" "HOL-Library.Signed_Division"
begin

unbundle bit_operations_syntax

section \<open>Smart Study Table firmware (smarttablecode.ino) as a state-passing model\<close>

text \<open>
  The sketch targets the Arduino UNO (its header says so), where \<open>int\<close> and
  \<open>unsigned int\<close> have 16 bits and \<open>long\<close> and \<open>unsigned long\<close> have 32 bits.
  Unsigned arithmetic wraps; signed values are read with \<open>sint\<close>. Every global of the
  sketch is a field of the record \<open>sys\<close>, the function-local \<open>static long lastSnap\<close> of
  \<open>loop\<close> included. A digital level is a \<open>bool\<close>: \<open>HIGH\<close> is \<open>True\<close> and
  \<open>LOW\<close> is \<open>False\<close>.

  Every call into the hardware or a library that acts on the outside world is appended to the
  field \<open>trace\<close>, in program order. Every value read from outside (a \<open>millis()\<close> result,
  a pin level, the echo time) is an argument of the function that reads it.
\<close>

type_synonym ulong = "32 word"
type_synonym long = "32 word"
type_synonym uint = "16 word"
type_synonym cint = "16 word"

datatype State = IDLE | SET_TIMER | WAIT_PHONE | COUNTDOWN | ABORTED

datatype pin = trigPin | relayPin | buzzerPin

datatype effect =
    DigitalWrite pin bool
  | Delay nat
  | DelayMicroseconds nat
  | PulseIn nat
  | RtcAdjustCompileTime
  | RtcAdjust cint cint cint cint cint cint
  | RtcNow
  | SerialPrint string
  | SerialPrintInt cint
  | SerialPrintTime
  | SerialPrintln string
  | DrawMessage string
  | DrawScreen

record sys =
  rtcOk :: bool
  encoderPos :: long
  lastEncoded :: cint
  lastBtnState :: bool
  btnState :: bool
  lastDebounceBtn :: ulong
  btnPressStart :: ulong
  state :: State
  timerMinutes :: uint
  countdownSeconds :: ulong
  countdownRunning :: bool
  countdownEndMillis :: ulong
  countdownStartMillis :: ulong
  lastUltrasonicCheck :: ulong
  studentDistance :: long
  ledState :: bool
  lastBuzzerToggle :: ulong
  buzzerOn :: bool
  lastDisplayUpdate :: ulong
  lastPhoneCheck :: ulong
  phonePresent :: bool
  serialLine :: string
  lastSnap :: long
  trace :: "effect list"

definition emit :: "sys \<Rightarrow> effect \<Rightarrow> sys" where
  "emit s e = s\<lparr>trace := trace s @ [e]\<rparr>"

subsection \<open>Constants of the sketch\<close>

definition BUZZER_TOGGLE_MS :: ulong where "BUZZER_TOGGLE_MS = 220"
definition debounceDelay :: ulong where "debounceDelay = 50"
definition LONG_PRESS_MS :: ulong where "LONG_PRESS_MS = 2000"
definition ultrasonicInterval :: ulong where "ultrasonicInterval = 200"
definition presenceThreshold :: int where "presenceThreshold = 100"
definition displayInterval :: ulong where "displayInterval = 250"
definition phoneCheckInterval :: ulong where "phoneCheckInterval = 150"
definition PHONE_DETECTED_STATE :: bool where "PHONE_DETECTED_STATE = False"

subsection \<open>Actuators and messages\<close>

definition setRelay :: "sys \<Rightarrow> bool \<Rightarrow> sys" where
  "setRelay s on = (emit s (DigitalWrite relayPin on))\<lparr>ledState := on\<rparr>"

text \<open>\<open>ACTIVE_BUZZER\<close> is 1, so the buzzer is driven with \<open>digitalWrite\<close>.\<close>

definition stopBuzzer :: "sys \<Rightarrow> sys" where
  "stopBuzzer s = (emit s (DigitalWrite buzzerPin False))\<lparr>buzzerOn := False\<rparr>"

definition rapidBuzzer :: "sys \<Rightarrow> ulong \<Rightarrow> sys" where
  "rapidBuzzer s now =
     (if now - lastBuzzerToggle s > BUZZER_TOGGLE_MS then
        (let s1 = s\<lparr>lastBuzzerToggle := now\<rparr>;
             s2 = s1\<lparr>buzzerOn := \<not> buzzerOn s1\<rparr>
         in emit s2 (DigitalWrite buzzerPin (buzzerOn s2)))
      else s)"

text \<open>\<open>showMessage\<close> draws the text and then calls \<open>delay(900)\<close>.\<close>

definition showMessage :: "sys \<Rightarrow> string \<Rightarrow> sys" where
  "showMessage s msg = emit (emit s (DrawMessage msg)) (Delay 900)"

text \<open>
  \<open>handleStudentPresence\<close>: a present student switches the relay on unless it is on;
  an absent one switches it off unless a countdown is in progress or it is off already.
\<close>

definition handleStudentPresence :: "sys \<Rightarrow> bool \<Rightarrow> sys" where
  "handleStudentPresence s present =
     (if present then (if \<not> ledState s then setRelay s True else s)
      else (if state s \<noteq> COUNTDOWN \<and> ledState s then setRelay s False else s))"

text \<open>
  \<open>startCountdown\<close> reads \<open>millis()\<close> twice (for the end and for the start timestamp);
  \<open>t1\<close> and \<open>t2\<close> are those two readings. The sum is an \<open>unsigned long\<close> sum.
\<close>

definition startCountdown :: "sys \<Rightarrow> ulong \<Rightarrow> ulong \<Rightarrow> sys" where
  "startCountdown s t1 t2 =
     (let s1 = s\<lparr>countdownRunning := True\<rparr>;
          durMs = (ucast (timerMinutes s1) :: ulong) * 60 * 1000;
          s2 = s1\<lparr>countdownEndMillis := t1 + durMs\<rparr>;
          s3 = s2\<lparr>countdownSeconds := (ucast (timerMinutes s2) :: ulong) * 60\<rparr>;
          s4 = s3\<lparr>countdownStartMillis := t2\<rparr>
      in setRelay s4 True)"

subsection \<open>Encoder interrupt handler\<close>

text \<open>
  \<open>updateEncoder\<close>, attached to both phase pins on \<open>CHANGE\<close>. \<open>a\<close> and \<open>b\<close> are the
  levels read from \<open>encA\<close> and \<open>encB\<close>. \<open>transition_code\<close> is the local \<open>sum\<close>.
\<close>

definition encoded_of :: "bool \<Rightarrow> bool \<Rightarrow> cint" where
  "encoded_of a b = push_bit 1 (of_bool a) OR of_bool b"

definition transition_code :: "sys \<Rightarrow> bool \<Rightarrow> bool \<Rightarrow> cint" where
  "transition_code s a b = push_bit 2 (lastEncoded s) OR encoded_of a b"

definition updateEncoder :: "sys \<Rightarrow> bool \<Rightarrow> bool \<Rightarrow> sys" where
  "updateEncoder s a b =
     (let encoded = encoded_of a b;
          sum = push_bit 2 (lastEncoded s) OR encoded;
          s1 = (if sum = 1 \<or> sum = 7 \<or> sum = 14 \<or> sum = 8
                then s\<lparr>encoderPos := encoderPos s + 1\<rparr> else s);
          s2 = (if sum = 2 \<or> sum = 11 \<or> sum = 13 \<or> sum = 4
                then s1\<lparr>encoderPos := encoderPos s1 - 1\<rparr> else s1)
      in s2\<lparr>lastEncoded := encoded\<rparr>)"

fun run_encoder :: "sys \<Rightarrow> (bool \<times> bool) list \<Rightarrow> sys" where
  "run_encoder s [] = s"
| "run_encoder s ((a, b) # xs) = run_encoder (updateEncoder s a b) xs"

text \<open>The transition codes the handler forms along a sequence of samples.\<close>

fun codes_seen :: "sys \<Rightarrow> (bool \<times> bool) list \<Rightarrow> cint list" where
  "codes_seen s [] = []"
| "codes_seen s ((a, b) # xs) = transition_code s a b # codes_seen (updateEncoder s a b) xs"

definition inc_codes :: "cint list" where "inc_codes = [1, 7, 14, 8]"
definition dec_codes :: "cint list" where "dec_codes = [2, 11, 13, 4]"

definition count_in :: "cint list \<Rightarrow> cint list \<Rightarrow> nat" where
  "count_in tab cs = length (filter (\<lambda>c. c \<in> set tab) cs)"

subsection \<open>Button classifier and the short-press transition\<close>

text \<open>
  Lines 183--186 and 247--250 of the sketch are the same four statements: divide the encoder
  position by 4 (C division of a \<open>long\<close>, truncating towards zero), raise the result to 1,
  lower it to 600, and convert it to \<open>unsigned int\<close>. \<open>mins\<close> is a \<open>long\<close>, kept here
  as the integer it denotes.
\<close>

definition minutes_of_encoder :: "long \<Rightarrow> uint" where
  "minutes_of_encoder pos =
     (let mins = sint pos sdiv 4;
          mins = (if mins < 1 then 1 else mins);
          mins = (if mins > 600 then 600 else mins)
      in word_of_int mins)"

definition onEncoderShortPress :: "sys \<Rightarrow> sys" where
  "onEncoderShortPress s =
     (if state s = IDLE then
        (let s1 = s\<lparr>state := SET_TIMER\<rparr>
         in s1\<lparr>encoderPos := (ucast (timerMinutes s1) :: long) * 4\<rparr>)
      else if state s = SET_TIMER then
        (let s1 = s\<lparr>timerMinutes := minutes_of_encoder (encoderPos s)\<rparr>
         in s1\<lparr>state := WAIT_PHONE\<rparr>)
      else if state s = WAIT_PHONE then s\<lparr>state := IDLE\<rparr>
      else if state s = COUNTDOWN then
        (let s1 = s\<lparr>countdownRunning := False\<rparr>;
             s2 = stopBuzzer s1;
             s3 = setRelay s2 False;
             s4 = showMessage s3 ''Aborted''
         in s4\<lparr>state := IDLE\<rparr>)
      else if state s = ABORTED then s\<lparr>state := IDLE\<rparr>
      else s)"

text \<open>The long-press branch of \<open>readEncoderButton\<close> (lines 223--231).\<close>

definition longPressAction :: "sys \<Rightarrow> sys" where
  "longPressAction s =
     (if rtcOk s then
        showMessage
          (emit (emit s RtcAdjustCompileTime) (SerialPrintln ''RTC set to compile time (long press).''))
          ''RTC Saved''
      else
        showMessage (emit s (SerialPrintln ''RTC missing; cannot set time.'')) ''RTC Missing'')"

text \<open>
  \<open>readEncoderButton\<close>: \<open>reading\<close> is the level of the button pin (pulled up, so
  \<open>LOW\<close> is pressed) and \<open>t\<close> the \<open>millis()\<close> value read on line 211.
\<close>

definition readEncoderButton :: "sys \<Rightarrow> bool \<Rightarrow> ulong \<Rightarrow> sys" where
  "readEncoderButton s reading t =
     (let s1 = (if reading \<noteq> lastBtnState s then s\<lparr>lastDebounceBtn := t\<rparr> else s);
          s2 = (if t - lastDebounceBtn s1 > debounceDelay then
                  (if reading \<noteq> btnState s1 then
                     (let s3 = s1\<lparr>btnState := reading\<rparr>
                      in if btnState s3 = False then s3\<lparr>btnPressStart := t\<rparr>
                         else (let pressDur = t - btnPressStart s3
                               in if pressDur \<ge> LONG_PRESS_MS then longPressAction s3
                                  else onEncoderShortPress s3))
                   else s1)
                else s1)
      in s2\<lparr>lastBtnState := reading\<rparr>)"

text \<open>
  Which event one call of \<open>readEncoderButton\<close> raises: the long-press branch, the call of
  \<open>onEncoderShortPress\<close>, or neither. The conditions are those of the function above.
\<close>

datatype press = ShortPress | LongPress

definition button_event :: "sys \<Rightarrow> bool \<Rightarrow> ulong \<Rightarrow> press option" where
  "button_event s reading t =
     (let deb = (if reading \<noteq> lastBtnState s then t else lastDebounceBtn s)
      in if t - deb > debounceDelay \<and> reading \<noteq> btnState s \<and> reading then
           (if t - btnPressStart s \<ge> LONG_PRESS_MS then Some LongPress else Some ShortPress)
         else None)"



subsection \<open>Serial commands\<close>

text \<open>
  \<open>strtok\<close> with the delimiters space and tab, called until it returns \<open>NULL\<close>:
  the maximal runs of other characters.
\<close>

definition is_delim :: "char \<Rightarrow> bool" where
  "is_delim c = (c = CHR '' '' \<or> c = CHR 0x09)"

fun strtok_all :: "string \<Rightarrow> string \<Rightarrow> string list" where
  "strtok_all cur [] = (if cur = [] then [] else [cur])"
| "strtok_all cur (c # cs) =
     (if is_delim c then (if cur = [] then [] else [cur]) @ strtok_all [] cs
      else strtok_all (cur @ [c]) cs)"

definition isspace :: "char \<Rightarrow> bool" where
  "isspace c = (let n = (of_char c :: nat) in n = 32 \<or> (9 \<le> n \<and> n \<le> 13))"

definition isdigit :: "char \<Rightarrow> bool" where
  "isdigit c = (let n = (of_char c :: nat) in 48 \<le> n \<and> n \<le> 57)"

definition toupper :: "char \<Rightarrow> char" where
  "toupper c = (let n = (of_char c :: nat) in if 97 \<le> n \<and> n \<le> 122 then char_of (n - 32) else c)"

text \<open>
  \<open>atoi\<close> returns a 16-bit \<open>int\<close>. A value that does not fit is undefined behaviour in C;
  the accumulation below wraps, as the library routine of the target does.
\<close>

fun atoi_digits :: "cint \<Rightarrow> string \<Rightarrow> cint" where
  "atoi_digits acc [] = acc"
| "atoi_digits acc (c # cs) =
     (if isdigit c then atoi_digits (acc * 10 + of_nat (of_char c - 48)) cs else acc)"

definition atoi :: "string \<Rightarrow> cint" where
  "atoi str =
     (case dropWhile isspace str of
        [] \<Rightarrow> 0
      | c # cs \<Rightarrow> if c = CHR ''-'' then - atoi_digits 0 cs
                  else if c = CHR ''+'' then atoi_digits 0 cs
                  else atoi_digits 0 (c # cs))"

text \<open>The range test of the \<open>SET\<close> command (lines 450--452), on signed 16-bit values.\<close>

definition date_ok :: "cint \<Rightarrow> cint \<Rightarrow> cint \<Rightarrow> cint \<Rightarrow> cint \<Rightarrow> cint \<Rightarrow> bool" where
  "date_ok year month day hour minute second =
     (let ok = True;
          ok = (if sint year < 2000 \<or> sint month < 1 \<or> sint month > 12 \<or> sint day < 1 \<or> sint day > 31
                then False else ok);
          ok = (if sint hour < 0 \<or> sint hour > 23 \<or> sint minute < 0 \<or> sint minute > 59
                   \<or> sint second < 0 \<or> sint second > 59
                then False else ok)
      in ok)"

text \<open>
  Lines 421--429: the line is copied into a 220-byte C string and cut into at most 12 tokens.
\<close>

definition tokenize :: "string \<Rightarrow> string list" where
  "tokenize line =
     (let buf = takeWhile (\<lambda>c. c \<noteq> CHR 0x00) (take 219 line)
      in take 12 (strtok_all [] buf))"

text \<open>
  \<open>processSerialCommand\<close>: the first token is upper-cased before it is compared.
\<close>

definition processSerialCommand :: "sys \<Rightarrow> string \<Rightarrow> sys" where
  "processSerialCommand s line =
     (let tokens = tokenize line;
          tk = length tokens
      in if tk = 0 then s
         else
           (let cmd = map toupper (tokens ! 0)
            in if cmd = ''SETNOW'' then
                 (if \<not> rtcOk s then emit s (SerialPrintln ''RTC not available - can't set time.'')
                  else showMessage
                         (emit (emit s RtcAdjustCompileTime)
                            (SerialPrintln ''RTC set to compile time (SETNOW).''))
                         ''RTC Saved'')
               else if cmd = ''SET'' then
                 (if tk < 7 then emit s (SerialPrintln ''Usage: SET YYYY MM DD HH MM SS'')
                  else
                    (let year = atoi (tokens ! 1);
                         month = atoi (tokens ! 2);
                         day = atoi (tokens ! 3);
                         hour = atoi (tokens ! 4);
                         minute = atoi (tokens ! 5);
                         second = atoi (tokens ! 6)
                     in if \<not> date_ok year month day hour minute second then
                          emit s (SerialPrintln ''Invalid date/time.'')
                        else if \<not> rtcOk s then
                          emit s (SerialPrintln ''RTC not available - can't set time.'')
                        else
                          showMessage
                            (foldl emit s
                               [RtcAdjust year month day hour minute second,
                                SerialPrint ''RTC set to: '',
                                SerialPrintInt year, SerialPrint ''/'',
                                SerialPrintInt month, SerialPrint ''/'',
                                SerialPrintInt day, SerialPrint '' '',
                                SerialPrintInt hour, SerialPrint '':'',
                                SerialPrintInt minute, SerialPrint '':'',
                                SerialPrintInt second, SerialPrintln []])
                            ''RTC Saved''))
               else if cmd = ''READ'' then
                 (if \<not> rtcOk s then emit s (SerialPrintln ''RTC not available.'')
                  else emit (emit s RtcNow) SerialPrintTime)
               else
                 foldl emit s
                   [SerialPrint ''Unknown command: '', SerialPrintln cmd,
                    SerialPrintln ''Commands: SET YYYY MM DD HH MM SS | SETNOW | READ'']))"

text \<open>\<open>String::trim\<close> removes white space at both ends.\<close>

definition trim :: "string \<Rightarrow> string" where
  "trim str = rev (dropWhile isspace (rev (dropWhile isspace str)))"

text \<open>One round of the \<open>while (Serial.available())\<close> loop, for the byte \<open>c\<close> read.\<close>

definition serial_byte :: "sys \<Rightarrow> char \<Rightarrow> sys" where
  "serial_byte s c =
     (if c = CHR 0x0D then s
      else if c = CHR 0x0A then
        (let s1 = s\<lparr>serialLine := trim (serialLine s)\<rparr>
         in if length (serialLine s1) > 0 then
              (processSerialCommand s1 (serialLine s1))\<lparr>serialLine := []\<rparr>
            else s1)
      else
        (let s1 = s\<lparr>serialLine := serialLine s @ [c]\<rparr>
         in if length (serialLine s1) > 200 then
              s1\<lparr>serialLine := drop (length (serialLine s1) - 200) (serialLine s1)\<rparr>
            else s1))"

text \<open>\<open>handleSerialInput\<close>, for the bytes the receive buffer hands out during the call.\<close>

fun handleSerialInput :: "sys \<Rightarrow> string \<Rightarrow> sys" where
  "handleSerialInput s [] = s"
| "handleSerialInput s (c # cs) = handleSerialInput (serial_byte s c) cs"

subsection \<open>The main loop\<close>

text \<open>
  \<open>readUltrasonic\<close>: the trigger pulse, then \<open>pulseIn\<close> with a timeout of 30000
  microseconds. \<open>echo_us\<close> is what \<open>pulseIn\<close> returns. The distance is computed in
  floating point (\<open>duration * 0.034 / 2\<close>) and converted to \<open>long\<close>; \<open>echo_cm\<close> is
  the result of that conversion, taken as given.
\<close>

definition readUltrasonic :: "sys \<Rightarrow> ulong \<Rightarrow> long \<Rightarrow> long \<times> sys" where
  "readUltrasonic s echo_us echo_cm =
     (let s1 = foldl emit s
                 [DigitalWrite trigPin False, DelayMicroseconds 2,
                  DigitalWrite trigPin True, DelayMicroseconds 10,
                  DigitalWrite trigPin False, PulseIn 30000]
      in (if echo_us = 0 then - 1 else echo_cm, s1))"

text \<open>
  \<open>updateDisplay\<close> reads the clock when there is one and redraws the screen. What it draws
  is a function of the state alone and is not modelled beyond the redraw itself.
\<close>

definition updateDisplay :: "sys \<Rightarrow> sys" where
  "updateDisplay s = emit (if rtcOk s then emit s RtcNow else s) DrawScreen"

text \<open>Lines 135--140: the presence sample, every 200 ms.\<close>

definition ultrasonic_task :: "sys \<Rightarrow> ulong \<Rightarrow> ulong \<Rightarrow> long \<Rightarrow> sys" where
  "ultrasonic_task s now echo_us echo_cm =
     (if now - lastUltrasonicCheck s \<ge> ultrasonicInterval then
        (let s1 = s\<lparr>lastUltrasonicCheck := now\<rparr>;
             (d, s2) = readUltrasonic s1 echo_us echo_cm;
             s3 = s2\<lparr>studentDistance := d\<rparr>;
             present = (sint (studentDistance s3) > 0 \<and> sint (studentDistance s3) \<le> presenceThreshold)
         in handleStudentPresence s3 present)
      else s)"

text \<open>
  Lines 143--156: the phone sample, every 150 ms while waiting or counting. \<open>irVal\<close> is
  the level of the infrared pin, \<open>t1\<close> and \<open>t2\<close> the clock readings of
  \<open>startCountdown\<close>.
\<close>

definition phone_task :: "sys \<Rightarrow> ulong \<Rightarrow> bool \<Rightarrow> ulong \<Rightarrow> ulong \<Rightarrow> sys" where
  "phone_task s now irVal t1 t2 =
     (if state s = WAIT_PHONE \<or> state s = COUNTDOWN then
        (if now - lastPhoneCheck s \<ge> phoneCheckInterval then
           (let s1 = s\<lparr>lastPhoneCheck := now\<rparr>;
                s2 = s1\<lparr>phonePresent := (irVal = PHONE_DETECTED_STATE)\<rparr>
            in if state s2 = WAIT_PHONE \<and> phonePresent s2 \<and> \<not> countdownRunning s2 then
                 (let s3 = startCountdown s2 t1 t2;
                      s4 = s3\<lparr>countdownSeconds := (ucast (timerMinutes s3) :: ulong) * 60\<rparr>
                  in s4\<lparr>state := COUNTDOWN\<rparr>)
               else s2)
         else s)
      else s)"

text \<open>
  Lines 159--175: the countdown. \<open>m1\<close> is the \<open>millis()\<close> value compared with the end
  timestamp on line 160, \<open>m2\<close> the one subtracted from it on line 169, \<open>m3\<close> the one
  \<open>rapidBuzzer\<close> reads.
\<close>

definition countdown_task :: "sys \<Rightarrow> ulong \<Rightarrow> ulong \<Rightarrow> ulong \<Rightarrow> sys" where
  "countdown_task s m1 m2 m3 =
     (if state s = COUNTDOWN \<and> countdownRunning s then
        (let s1 = (if m1 \<ge> countdownEndMillis s then
                     (let a = s\<lparr>countdownSeconds := 0\<rparr>;
                          b = a\<lparr>countdownRunning := False\<rparr>;
                          c = setRelay b False;
                          d = showMessage c ''Timer Done'';
                          e = d\<lparr>state := IDLE\<rparr>
                      in stopBuzzer e)
                   else
                     (let remMs = countdownEndMillis s - m2
                      in s\<lparr>countdownSeconds := remMs div 1000\<rparr>))
         in if \<not> phonePresent s1 then rapidBuzzer s1 m3 else stopBuzzer s1)
      else s)"

text \<open>Lines 178--188: the timer setting follows the encoder while in \<open>SET_TIMER\<close>.\<close>

definition set_timer_task :: "sys \<Rightarrow> sys" where
  "set_timer_task s =
     (if state s = SET_TIMER then
        (let snap = encoderPos s
         in if snap \<noteq> lastSnap s then
              (let s1 = s\<lparr>lastSnap := snap\<rparr>
               in s1\<lparr>timerMinutes := minutes_of_encoder snap\<rparr>)
            else s)
      else s)"

text \<open>Lines 191--194: the display refresh, every 250 ms.\<close>

definition display_task :: "sys \<Rightarrow> ulong \<Rightarrow> sys" where
  "display_task s now =
     (if now - lastDisplayUpdate s \<ge> displayInterval then
        updateDisplay (s\<lparr>lastDisplayUpdate := now\<rparr>)
      else s)"

text \<open>
  Everything one iteration of \<open>loop\<close> reads from outside. The encoder interrupt can fire
  anywhere inside the iteration. The main program touches the encoder position in two places
  only, the button handler and the \<open>SET_TIMER\<close> block, so interrupts before the first are
  the same as interrupts before the iteration, interrupts after the second the same as
  interrupts after it, and \<open>isr_mid\<close> are those in between. (A 32-bit access of the main
  program that an interrupt splits is not modelled.)
\<close>

record loop_in =
  serial_rx :: string
  t_loop :: ulong
  btn_level :: bool
  t_btn :: ulong
  echo_us :: ulong
  echo_cm :: long
  ir_level :: bool
  t_start :: ulong
  t_start2 :: ulong
  t_check :: ulong
  t_remain :: ulong
  t_buzz :: ulong
  isr_mid :: "(bool \<times> bool) list"

definition loop :: "sys \<Rightarrow> loop_in \<Rightarrow> sys" where
  "loop s i =
     (let now = t_loop i;
          s1 = handleSerialInput s (serial_rx i);
          s2 = readEncoderButton s1 (btn_level i) (t_btn i);
          s3 = ultrasonic_task s2 now (echo_us i) (echo_cm i);
          s4 = phone_task s3 now (ir_level i) (t_start i) (t_start2 i);
          s5 = countdown_task s4 (t_check i) (t_remain i) (t_buzz i);
          s6 = run_encoder s5 (isr_mid i);
          s7 = set_timer_task s6
      in display_task s7 now)"

text \<open>
  The function \<open>setup()\<close> of the sketch: the initial values of the globals, the report on the clock chip, and
  \<open>setRelay(false)\<close>. \<open>found\<close> is what \<open>rtc.begin()\<close> returns.
\<close>

definition globals0 :: sys where
  "globals0 = \<lparr>rtcOk = False, encoderPos = 0, lastEncoded = 0, lastBtnState = True,
     btnState = True, lastDebounceBtn = 0, btnPressStart = 0, state = IDLE, timerMinutes = 25,
     countdownSeconds = 0, countdownRunning = False, countdownEndMillis = 0,
     countdownStartMillis = 0, lastUltrasonicCheck = 0, studentDistance = 999,
     ledState = False, lastBuzzerToggle = 0, buzzerOn = False, lastDisplayUpdate = 0,
     lastPhoneCheck = 0, phonePresent = False, serialLine = [], lastSnap = 0, trace = []\<rparr>"

definition setup_board :: "bool \<Rightarrow> sys" where
  "setup_board found =
     (let s1 = globals0\<lparr>rtcOk := found\<rparr>;
          s2 = (if \<not> rtcOk s1
                then emit s1 (SerialPrintln ''Couldn't find RTC. Check wiring (SDA->A4, SCL->A5).'')
                else emit s1 (SerialPrintln ''RTC found.''))
      in setRelay s2 False)"

text \<open>A run of the firmware: interrupts and loop iterations, in the order they happen.\<close>

datatype event = Isr bool bool | Loop loop_in

fun step :: "sys \<Rightarrow> event \<Rightarrow> sys" where
  "step s (Isr a b) = updateEncoder s a b"
| "step s (Loop i) = loop s i"

fun run :: "sys \<Rightarrow> event list \<Rightarrow> sys" where
  "run s [] = s"
| "run s (e # es) = run (step s e) es"

subsection \<open>Concrete loop iterations\<close>

text \<open>
  An iteration in which every clock reading is \<open>t\<close>, no byte arrives, the button is up,
  the ultrasonic ping gets no echo, the infrared pin is high (no phone) and no encoder edge
  occurs; and the same with the button held down, or with a phone on the sensor.
\<close>

definition tick :: "ulong \<Rightarrow> loop_in" where
  "tick t = \<lparr>serial_rx = [], t_loop = t, btn_level = True, t_btn = t, echo_us = 0, echo_cm = 0,
     ir_level = True, t_start = t, t_start2 = t, t_check = t, t_remain = t, t_buzz = t,
     isr_mid = []\<rparr>"

definition tick_btn :: "ulong \<Rightarrow> event" where
  "tick_btn t = Loop ((tick t)\<lparr>btn_level := False\<rparr>)"

definition tick_phone :: "ulong \<Rightarrow> event" where
  "tick_phone t = Loop ((tick t)\<lparr>ir_level := False\<rparr>)"

definition tick_btn_phone :: "ulong \<Rightarrow> event" where
  "tick_btn_phone t = Loop ((tick t)\<lparr>btn_level := False, ir_level := False\<rparr>)"

text \<open>A short press: the button goes down at \<open>t\<close> and up again 100 ms later.\<close>

definition short_press :: "ulong \<Rightarrow> event list" where
  "short_press t = [tick_btn t, tick_btn (t + 60), Loop (tick (t + 100)), Loop (tick (t + 160))]"

definition short_press_phone :: "ulong \<Rightarrow> event list" where
  "short_press_phone t =
     [tick_btn_phone t, tick_btn_phone (t + 60), tick_phone (t + 100), tick_phone (t + 160)]"

subsection \<open>The invariant of the session state\<close>

definition session_inv :: "sys \<Rightarrow> bool" where
  "session_inv s =
     (1 \<le> unat (timerMinutes s) \<and> unat (timerMinutes s) \<le> 600 \<and>
      (countdownRunning s \<longrightarrow> state s = COUNTDOWN) \<and> state s \<noteq> ABORTED)"

subsection \<open>Concrete runs\<close>

text \<open>
  From power-up to a running countdown of 25 minutes: a short press (to \<open>SET_TIMER\<close>),
  another one (to \<open>WAIT_PHONE\<close>), and a phone sample that finds the phone at 620 ms.
\<close>

definition to_countdown :: "event list" where
  "to_countdown = short_press 100 @ short_press 300 @ [tick_phone 620]"

text \<open>
  The same path to the countdown with the clock 1000 ms before the 32-bit millisecond counter
  wraps (49.7 days after power-up) when the phone is found.
\<close>

definition rollover_run :: "event list" where
  "rollover_run = short_press 4294960000 @ short_press 4294961000 @ [tick_phone 4294966296]"

text \<open>
  A countdown that is cancelled with the phone left on the sensor, followed by a short press
  (to \<open>SET_TIMER\<close>) and a second press up to the sample on which its release is first seen;
  the next sample of the button commits the timer.
\<close>

definition before_commit :: "event list" where
  "before_commit = to_countdown @ short_press_phone 700 @ short_press_phone 2000
     @ [tick_btn_phone 2200, tick_btn_phone 2260, tick_phone 2300]"

subsection \<open>Button sample sequences\<close>



section \<open>Auxiliary facts\<close>

subsection \<open>What the helpers leave alone\<close>

lemma emit_fields [simp]:
  "state (emit s e) = state s"
  "timerMinutes (emit s e) = timerMinutes s"
  "countdownRunning (emit s e) = countdownRunning s"
  "phonePresent (emit s e) = phonePresent s"
  "rtcOk (emit s e) = rtcOk s"
  "trace (emit s e) = trace s @ [e]"
  by (simp_all add: emit_def)

lemma setRelay_fields [simp]:
  "state (setRelay s on) = state s"
  "timerMinutes (setRelay s on) = timerMinutes s"
  "countdownRunning (setRelay s on) = countdownRunning s"
  "phonePresent (setRelay s on) = phonePresent s"
  "ledState (setRelay s on) = on"
  "trace (setRelay s on) = trace s @ [DigitalWrite relayPin on]"
  by (simp_all add: setRelay_def emit_def)

lemma stopBuzzer_fields [simp]:
  "state (stopBuzzer s) = state s"
  "timerMinutes (stopBuzzer s) = timerMinutes s"
  "countdownRunning (stopBuzzer s) = countdownRunning s"
  "phonePresent (stopBuzzer s) = phonePresent s"
  "trace (stopBuzzer s) = trace s @ [DigitalWrite buzzerPin False]"
  by (simp_all add: stopBuzzer_def emit_def)

lemma rapidBuzzer_fields [simp]:
  "state (rapidBuzzer s t) = state s"
  "timerMinutes (rapidBuzzer s t) = timerMinutes s"
  "countdownRunning (rapidBuzzer s t) = countdownRunning s"
  "phonePresent (rapidBuzzer s t) = phonePresent s"
  by (simp_all add: rapidBuzzer_def emit_def Let_def)

lemma showMessage_fields [simp]:
  "state (showMessage s m) = state s"
  "timerMinutes (showMessage s m) = timerMinutes s"
  "countdownRunning (showMessage s m) = countdownRunning s"
  "phonePresent (showMessage s m) = phonePresent s"
  "trace (showMessage s m) = trace s @ [DrawMessage m, Delay 900]"
  by (simp_all add: showMessage_def emit_def)

lemma longPressAction_fields [simp]:
  "state (longPressAction s) = state s"
  "timerMinutes (longPressAction s) = timerMinutes s"
  "countdownRunning (longPressAction s) = countdownRunning s"
  "phonePresent (longPressAction s) = phonePresent s"
  by (simp_all add: longPressAction_def)

text \<open>A serial command changes nothing but the trace.\<close>

lemma processSerialCommand_frame:
  "processSerialCommand s line = s\<lparr>trace := trace (processSerialCommand s line)\<rparr>"
  by (simp add: processSerialCommand_def Let_def emit_def showMessage_def)

lemma serial_byte_frame:
  "serial_byte s c =
     s\<lparr>serialLine := serialLine (serial_byte s c), trace := trace (serial_byte s c)\<rparr>"
proof -
  define s1 where "s1 = s\<lparr>serialLine := trim (serialLine s)\<rparr>"
  define T where "T = trace (processSerialCommand s1 (serialLine s1))"
  have p: "processSerialCommand s1 (serialLine s1) = s1\<lparr>trace := T\<rparr>"
    unfolding T_def by (rule processSerialCommand_frame)
  have "(processSerialCommand s1 (serialLine s1))\<lparr>serialLine := []\<rparr> = s\<lparr>serialLine := [], trace := T\<rparr>"
    by (simp add: p) (simp add: s1_def)
  then show ?thesis
    by (simp add: serial_byte_def Let_def s1_def [symmetric]) (simp add: s1_def)
qed

lemma handleSerialInput_frame:
  "handleSerialInput s bs =
     s\<lparr>serialLine := serialLine (handleSerialInput s bs), trace := trace (handleSerialInput s bs)\<rparr>"
proof (induction bs arbitrary: s)
  case Nil
  show ?case by simp
next
  case (Cons c cs)
  have "handleSerialInput (serial_byte s c) cs =
          (serial_byte s c)\<lparr>serialLine := serialLine (handleSerialInput (serial_byte s c) cs),
                           trace := trace (handleSerialInput (serial_byte s c) cs)\<rparr>"
    by (rule Cons.IH)
  also have "\<dots> = s\<lparr>serialLine := serialLine (handleSerialInput (serial_byte s c) cs),
                     trace := trace (handleSerialInput (serial_byte s c) cs)\<rparr>"
    by (subst serial_byte_frame) simp
  finally show ?case by simp
qed

lemma handleSerialInput_fields [simp]:
  "state (handleSerialInput s bs) = state s"
  "timerMinutes (handleSerialInput s bs) = timerMinutes s"
  "countdownRunning (handleSerialInput s bs) = countdownRunning s"
  "phonePresent (handleSerialInput s bs) = phonePresent s"
  by (subst handleSerialInput_frame, simp)+

lemma updateEncoder_fields [simp]:
  "state (updateEncoder s a b) = state s"
  "timerMinutes (updateEncoder s a b) = timerMinutes s"
  "countdownRunning (updateEncoder s a b) = countdownRunning s"
  "phonePresent (updateEncoder s a b) = phonePresent s"
  by (simp_all add: updateEncoder_def Let_def)

lemma run_encoder_fields [simp]:
  "state (run_encoder s xs) = state s"
  "timerMinutes (run_encoder s xs) = timerMinutes s"
  "countdownRunning (run_encoder s xs) = countdownRunning s"
  "phonePresent (run_encoder s xs) = phonePresent s"
proof -
  show "state (run_encoder s xs) = state s"
    by (induction s xs rule: run_encoder.induct) simp_all
  show "timerMinutes (run_encoder s xs) = timerMinutes s"
    by (induction s xs rule: run_encoder.induct) simp_all
  show "countdownRunning (run_encoder s xs) = countdownRunning s"
    by (induction s xs rule: run_encoder.induct) simp_all
  show "phonePresent (run_encoder s xs) = phonePresent s"
    by (induction s xs rule: run_encoder.induct) simp_all
qed

subsection \<open>The invariant is kept by every step\<close>

lemma minutes_of_encoder_range:
  "1 \<le> unat (minutes_of_encoder pos) \<and> unat (minutes_of_encoder pos) \<le> 600"
proof -
  define m where "m = (let mins = sint pos sdiv 4;
          mins = (if mins < 1 then 1 else mins);
          mins = (if mins > 600 then 600 else mins) in mins)"
  have r: "1 \<le> m \<and> m \<le> 600" by (simp add: m_def Let_def)
  have "uint (word_of_int m :: uint) = m"
    using r by (simp add: uint_word_of_int)
  then have "unat (word_of_int m :: uint) = nat m"
    by (simp add: unat_eq_nat_uint)
  moreover have "minutes_of_encoder pos = word_of_int m"
    by (simp add: minutes_of_encoder_def m_def Let_def)
  ultimately show ?thesis using r by (simp only:) arith
qed

lemma onEncoderShortPress_inv: "session_inv s \<Longrightarrow> session_inv (onEncoderShortPress s)"
  using minutes_of_encoder_range [of "encoderPos s"]
  by (auto simp: session_inv_def onEncoderShortPress_def Let_def)

lemma readEncoderButton_inv: "session_inv s \<Longrightarrow> session_inv (readEncoderButton s r t)"
proof -
  assume i: "session_inv s"
  have a: "session_inv (s'\<lparr>lastBtnState := x\<rparr>) = session_inv s'" for s' x
    by (simp add: session_inv_def)
  have b: "session_inv (s'\<lparr>lastDebounceBtn := x\<rparr>) = session_inv s'" for s' x
    by (simp add: session_inv_def)
  have c: "session_inv (s'\<lparr>btnState := x\<rparr>) = session_inv s'" for s' x
    by (simp add: session_inv_def)
  have d: "session_inv (s'\<lparr>btnPressStart := x\<rparr>) = session_inv s'" for s' x
    by (simp add: session_inv_def)
  have e: "session_inv (longPressAction s') = session_inv s'" for s'
    by (simp add: session_inv_def)
  show ?thesis
    using i by (simp add: readEncoderButton_def Let_def a b c d e onEncoderShortPress_inv)
qed

lemma ultrasonic_task_inv: "session_inv s \<Longrightarrow> session_inv (ultrasonic_task s now us cm)"
  by (simp add: session_inv_def ultrasonic_task_def readUltrasonic_def Let_def
        handleStudentPresence_def)

lemma phone_task_inv: "session_inv s \<Longrightarrow> session_inv (phone_task s now ir t1 t2)"
  by (auto simp: session_inv_def phone_task_def startCountdown_def Let_def)

lemma countdown_task_inv: "session_inv s \<Longrightarrow> session_inv (countdown_task s m1 m2 m3)"
  by (simp add: session_inv_def countdown_task_def Let_def)

lemma set_timer_task_inv: "session_inv s \<Longrightarrow> session_inv (set_timer_task s)"
  using minutes_of_encoder_range [of "encoderPos s"]
  by (auto simp: session_inv_def set_timer_task_def Let_def)

lemma display_task_inv: "session_inv s \<Longrightarrow> session_inv (display_task s now)"
  by (simp add: session_inv_def display_task_def updateDisplay_def)

lemma handleSerialInput_inv: "session_inv (handleSerialInput s bs) = session_inv s"
  by (simp add: session_inv_def)

lemma run_encoder_inv: "session_inv (run_encoder s xs) = session_inv s"
  by (simp add: session_inv_def)

lemma loop_inv: "session_inv s \<Longrightarrow> session_inv (loop s i)"
  unfolding loop_def Let_def
  by (intro display_task_inv set_timer_task_inv)
     (simp add: run_encoder_inv handleSerialInput_inv countdown_task_inv phone_task_inv
        ultrasonic_task_inv readEncoderButton_inv)

lemma step_inv: "session_inv s \<Longrightarrow> session_inv (step s e)"
proof (cases e)
  case (Isr a b)
  assume "session_inv s"
  then show ?thesis by (simp add: Isr session_inv_def)
next
  case (Loop i)
  assume "session_inv s"
  then show ?thesis by (simp add: Loop loop_inv)
qed

lemma run_inv: "session_inv s \<Longrightarrow> session_inv (run s es)"
  by (induction es arbitrary: s) (simp_all add: step_inv)

lemma setup_board_inv: "session_inv (setup_board found)"
  by (simp add: session_inv_def setup_board_def globals0_def Let_def)

lemma reachable_inv: "session_inv (run (setup_board found) es)"
  by (rule run_inv [OF setup_board_inv])

subsection \<open>Evaluation of concrete runs\<close>

lemmas eval_defs = loop_def tick_def tick_btn_def tick_phone_def
  tick_btn_phone_def short_press_def short_press_phone_def setup_board_def globals0_def Let_def
  emit_def setRelay_def stopBuzzer_def rapidBuzzer_def showMessage_def handleStudentPresence_def
  startCountdown_def readEncoderButton_def onEncoderShortPress_def longPressAction_def
  minutes_of_encoder_def ultrasonic_task_def readUltrasonic_def phone_task_def
  countdown_task_def set_timer_task_def display_task_def updateDisplay_def debounceDelay_def
  LONG_PRESS_MS_def ultrasonicInterval_def presenceThreshold_def displayInterval_def
  phoneCheckInterval_def PHONE_DETECTED_STATE_def BUZZER_TOGGLE_MS_def updateEncoder_def
  encoded_of_def transition_code_def inc_codes_def dec_codes_def count_in_def
  signed_divide_int_def

subsection \<open>Quadrature counting\<close>

lemma updateEncoder_pos:
  "encoderPos (updateEncoder s a b) =
     encoderPos s + of_nat (count_in inc_codes [transition_code s a b])
                  - of_nat (count_in dec_codes [transition_code s a b])"
  by (simp add: updateEncoder_def transition_code_def count_in_def inc_codes_def dec_codes_def
        Let_def)

lemma count_in_Cons:
  "count_in tab (c # cs) = count_in tab [c] + count_in tab cs"
  by (simp add: count_in_def)

lemma run_encoder_pos:
  "encoderPos (run_encoder s xs) =
     encoderPos s + of_nat (count_in inc_codes (codes_seen s xs))
                  - of_nat (count_in dec_codes (codes_seen s xs))"
proof (induction xs arbitrary: s)
  case Nil
  show ?case by (simp add: count_in_def)
next
  case (Cons x xs)
  obtain a b where x: "x = (a, b)" by (cases x)
  show ?case
    unfolding x run_encoder.simps codes_seen.simps Cons.IH
    by (subst (1 2) count_in_Cons) (simp add: updateEncoder_pos)
qed

lemma length_codes_seen: "length (codes_seen s xs) = length xs"
  by (induction s xs rule: codes_seen.induct) simp_all

lemma count_in_tables_le:
  "count_in inc_codes cs + count_in dec_codes cs \<le> length cs"
  by (induction cs) (auto simp: count_in_def inc_codes_def dec_codes_def)

lemma sint_long_of_int:
  "- (2 ^ 31) \<le> k \<Longrightarrow> k < 2 ^ 31 \<Longrightarrow> sint (word_of_int k :: long) = k"
  by (simp add: sint_sbintrunc' signed_take_bit_int_eq_self)

lemma run_encoder_sint:
  assumes "encoderPos s = 0" and "length xs < 2 ^ 31"
  shows "sint (encoderPos (run_encoder s xs)) =
           int (count_in inc_codes (codes_seen s xs)) - int (count_in dec_codes (codes_seen s xs))"
proof -
  define i where "i = count_in inc_codes (codes_seen s xs)"
  define d where "d = count_in dec_codes (codes_seen s xs)"
  define k where "k = int i - int d"
  have "i + d \<le> length xs"
    unfolding i_def d_def using count_in_tables_le [of "codes_seen s xs"]
    by (simp add: length_codes_seen)
  then have b: "- (2 ^ 31) \<le> k" "k < 2 ^ 31" using assms(2) by (simp_all add: k_def)
  have "encoderPos (run_encoder s xs) = word_of_int k"
    by (simp add: run_encoder_pos assms(1) i_def d_def k_def)
  then have "sint (encoderPos (run_encoder s xs)) = k"
    using sint_long_of_int [OF b] by (simp only:)
  then show ?thesis by (simp add: k_def i_def d_def)
qed

subsection \<open>The button classifier on sample sequences\<close>












text \<open>One call of the classifier, by the event it raises.\<close>

lemma readEncoderButton_event:
  "readEncoderButton s r t =
     (let s1 = (if r \<noteq> lastBtnState s then s\<lparr>lastDebounceBtn := t\<rparr> else s)
      in (case button_event s r t of
            Some LongPress \<Rightarrow> longPressAction (s1\<lparr>btnState := r\<rparr>)
          | Some ShortPress \<Rightarrow> onEncoderShortPress (s1\<lparr>btnState := r\<rparr>)
          | None \<Rightarrow> if t - lastDebounceBtn s1 > debounceDelay \<and> r \<noteq> btnState s1
                    then s1\<lparr>btnState := r, btnPressStart := t\<rparr> else s1)
         \<lparr>lastBtnState := r\<rparr>)"
  by (simp add: readEncoderButton_def button_event_def Let_def)


subsection \<open>The countdown when the clock does not wrap\<close>

lemma startCountdown_end_word:
  "countdownEndMillis (startCountdown s t1 t2) = t1 + ucast (timerMinutes s) * 60000"
  by (simp add: startCountdown_def Let_def setRelay_def emit_def mult.assoc)

lemma startCountdown_end_exact:
  assumes "unat t1 + unat (timerMinutes s) * 60000 < 2 ^ 32"
  shows "unat (countdownEndMillis (startCountdown s t1 t2)) =
           unat t1 + unat (timerMinutes s) * 60000"
proof -
  have "unat (timerMinutes s) < 2 ^ 16"
    using unsigned_less [of "timerMinutes s"] by simp
  then have m: "unat (ucast (timerMinutes s) :: ulong) = unat (timerMinutes s)"
    by (simp add: unsigned_ucast_eq take_bit_nat_eq_self)
  have c: "unat (60000 :: ulong) = 60000" by simp
  have "unat (ucast (timerMinutes s) :: ulong) * unat (60000 :: ulong) < 2 ^ LENGTH(32)"
    using assms by (simp add: m)
  then have d: "unat ((ucast (timerMinutes s) :: ulong) * 60000) = unat (timerMinutes s) * 60000"
    using unat_mult_lem [of "ucast (timerMinutes s) :: ulong" 60000] by (simp only: m c)
  have "unat t1 + unat ((ucast (timerMinutes s) :: ulong) * 60000) < 2 ^ LENGTH(32)"
    using assms by (simp add: d)
  then have "unat (t1 + (ucast (timerMinutes s) :: ulong) * 60000) =
          unat t1 + unat (timerMinutes s) * 60000"
    using unat_add_lem [of t1 "(ucast (timerMinutes s) :: ulong) * 60000"] by (simp only: d)
  then show ?thesis by (simp only: startCountdown_end_word)
qed

lemma countdown_task_deadline:
  assumes "state s = COUNTDOWN" and "countdownRunning s"
  shows "(m < countdownEndMillis s \<longrightarrow>
            state (countdown_task s m m m3) = COUNTDOWN \<and>
            unat (countdownSeconds (countdown_task s m m m3)) =
              (unat (countdownEndMillis s) - unat m) div 1000) \<and>
         (countdownEndMillis s \<le> m \<longrightarrow>
            state (countdown_task s m m m3) = IDLE \<and>
            countdownSeconds (countdown_task s m m m3) = 0)"
proof (intro conjI impI)
  assume lt: "m < countdownEndMillis s"
  then have n: "\<not> countdownEndMillis s \<le> m" by simp
  show "state (countdown_task s m m m3) = COUNTDOWN"
    using assms n by (simp add: countdown_task_def Let_def)
  have "countdownSeconds (countdown_task s m m m3) = (countdownEndMillis s - m) div 1000"
    using assms n
    by (simp add: countdown_task_def Let_def rapidBuzzer_def stopBuzzer_def emit_def)
  moreover have "unat (countdownEndMillis s - m) = unat (countdownEndMillis s) - unat m"
    using lt by (simp add: unat_sub word_less_def word_le_def)
  ultimately show "unat (countdownSeconds (countdown_task s m m m3)) =
              (unat (countdownEndMillis s) - unat m) div 1000"
    by (simp add: unat_div)
next
  assume ge: "countdownEndMillis s \<le> m"
  show "state (countdown_task s m m m3) = IDLE"
    using assms ge by (simp add: countdown_task_def Let_def)
  show "countdownSeconds (countdown_task s m m m3) = 0"
    using assms ge
    by (simp add: countdown_task_def Let_def rapidBuzzer_def stopBuzzer_def emit_def
          showMessage_def setRelay_def)
qed

subsection \<open>Tasks that are not due\<close>

lemma gated_tasks_skipped:
  "(\<not> now - lastUltrasonicCheck s \<ge> ultrasonicInterval \<longrightarrow> ultrasonic_task s now us cm = s) \<and>
   (\<not> now - lastPhoneCheck s \<ge> phoneCheckInterval \<longrightarrow> phone_task s now ir t1 t2 = s) \<and>
   (\<not> now - lastDisplayUpdate s \<ge> displayInterval \<longrightarrow> display_task s now = s) \<and>
   (\<not> now - lastBuzzerToggle s > BUZZER_TOGGLE_MS \<longrightarrow> rapidBuzzer s now = s)"
  by (simp add: ultrasonic_task_def phone_task_def display_task_def rapidBuzzer_def)

subsection \<open>Facts about the concrete runs and inputs\<close>

lemma to_countdown_state:
  "state (run (setup_board True) to_countdown) = COUNTDOWN"
  "countdownRunning (run (setup_board True) to_countdown)"
  "countdownEndMillis (run (setup_board True) to_countdown) = 1500620"
  "timerMinutes (run (setup_board True) to_countdown) = 25"
  "phonePresent (run (setup_board True) to_countdown)"
  by (simp_all add: to_countdown_def eval_defs cong: let_weak_cong)



lemma before_commit_state:
  "state (run (setup_board True) before_commit) = SET_TIMER"
  "phonePresent (run (setup_board True) before_commit)"
  "lastPhoneCheck (run (setup_board True) before_commit) = 800"
  "state (onEncoderShortPress (run (setup_board True) before_commit)) = WAIT_PHONE"
  "lastPhoneCheck (onEncoderShortPress (run (setup_board True) before_commit)) = 800"
  "countdownRunning (onEncoderShortPress (run (setup_board True) before_commit)) = False"
  by (simp_all add: before_commit_def to_countdown_def eval_defs cong: let_weak_cong)

section \<open>The claims\<close>

subsection \<open>C1\<close>

text \<open>
  C1. The countdown at the wrap of the millisecond clock. With the default 25 minutes and the
  phone found when \<open>millis()\<close> reads 4294966296 (1000 ms before the 32-bit counter
  wraps), \<open>startCountdown\<close> stores the end timestamp 1499000, which is the sum reduced
  modulo \<open>2^32\<close> and lies below the clock reading. The comparison of line 160 then holds in
  the very iteration that started the countdown: the firmware is back in \<open>IDLE\<close> with
  ``Timer Done'' on the display, 25 minutes early. The last conjunct is the other way the
  remaining time goes wrong: lines 160 and 169 read the clock separately, and when the first
  reading is before the deadline and the second after it, the subtraction wraps and the
  remaining time is 4294967 s.
\<close>

theorem C1_countdown_fails_at_clock_wrap:
  "state (run (setup_board True) (short_press 4294960000 @ short_press 4294961000)) = WAIT_PHONE \<and>
   timerMinutes (run (setup_board True) (short_press 4294960000 @ short_press 4294961000)) = 25 \<and>
   countdownStartMillis (run (setup_board True) rollover_run) = 4294966296 \<and>
   countdownEndMillis (run (setup_board True) rollover_run) = 1499000 \<and>
   state (run (setup_board True) rollover_run) = IDLE \<and>
   \<not> countdownRunning (run (setup_board True) rollover_run) \<and>
   countdownSeconds (run (setup_board True) rollover_run) = 0 \<and>
   DrawMessage ''Timer Done'' \<in> set (trace (run (setup_board True) rollover_run)) \<and>
   countdownEndMillis (run (setup_board True) to_countdown) = 1500620 \<and>
   countdownSeconds (countdown_task (run (setup_board True) to_countdown) 1500619 1500621 1500621)
     = 4294967"
  by (simp add: rollover_run_def to_countdown_def eval_defs cong: let_weak_cong)

subsection \<open>C2\<close>

text \<open>
  C2. After any sequence of interrupts and loop iterations from power-up, the timer setting is
  between 1 and 600; and the value computed from the encoder is in that range
  for every 32-bit encoder position, however far it overshoots in either direction.
\<close>

theorem C2_timer_minutes_range:
  "1 \<le> unat (timerMinutes (run (setup_board found) es)) \<and>
   unat (timerMinutes (run (setup_board found) es)) \<le> 600 \<and>
   1 \<le> unat (minutes_of_encoder pos) \<and> unat (minutes_of_encoder pos) \<le> 600"
  using reachable_inv [of found es] minutes_of_encoder_range [of pos]
  by (simp add: session_inv_def)

subsection \<open>C3\<close>

text \<open>
  C3. Each call of the interrupt handler forms the 4-bit code from the previous and the
  current 2-bit phase code; the codes 0001, 0111, 1110, 1000 add one to the counter, the codes
  0010, 1011, 1101, 0100 subtract one, every other code leaves it as it is, and the current
  phase code is remembered. Over any sequence of samples the counter ends at its start value
  plus the number of incrementing codes minus the number of decrementing codes (in the 32-bit
  arithmetic of the counter; read as a signed integer from 0, for fewer than \<open>2^31\<close> samples).
\<close>

theorem C3_quadrature_table:
  "transition_code s a b = push_bit 2 (lastEncoded s) OR encoded_of a b \<and>
   lastEncoded (updateEncoder s a b) = encoded_of a b \<and>
   encoderPos (updateEncoder s a b) =
     (if transition_code s a b \<in> {1, 7, 14, 8} then encoderPos s + 1
      else if transition_code s a b \<in> {2, 11, 13, 4} then encoderPos s - 1
      else encoderPos s) \<and>
   encoderPos (run_encoder s xs) =
     encoderPos s + of_nat (count_in inc_codes (codes_seen s xs))
                  - of_nat (count_in dec_codes (codes_seen s xs)) \<and>
   (encoderPos s = 0 \<and> length xs < 2 ^ 31 \<longrightarrow>
      sint (encoderPos (run_encoder s xs)) =
        int (count_in inc_codes (codes_seen s xs)) - int (count_in dec_codes (codes_seen s xs)))"
proof -
  have "encoderPos (updateEncoder s a b) =
     (if transition_code s a b \<in> {1, 7, 14, 8} then encoderPos s + 1
      else if transition_code s a b \<in> {2, 11, 13, 4} then encoderPos s - 1
      else encoderPos s)"
    by (simp add: updateEncoder_def transition_code_def Let_def)
  moreover have "lastEncoded (updateEncoder s a b) = encoded_of a b"
    by (simp add: updateEncoder_def Let_def)
  ultimately show ?thesis
    using run_encoder_pos [of s xs] run_encoder_sint [of s xs]
    by (simp add: transition_code_def)
qed

text \<open>
  One full turn step of the encoder in each direction from rest: four incrementing codes
  (0001, 0111, 1110, 1000), then four decrementing ones.
\<close>

theorem C3_quadrature_table_witness:
  "codes_seen globals0 [(False, True), (True, True), (True, False), (False, False)] = [1, 7, 14, 8] \<and>
   sint (encoderPos (run_encoder globals0
      [(False, True), (True, True), (True, False), (False, False)])) = 4 \<and>
   codes_seen globals0 [(True, False), (True, True), (False, True), (False, False)] = [2, 11, 13, 4] \<and>
   sint (encoderPos (run_encoder globals0
      [(True, False), (True, True), (False, True), (False, False)])) = - 4 \<and>
   encoderPos (updateEncoder globals0 True True) = 0"
  using C3_quadrature_table [of globals0 False True
            "[(False, True), (True, True), (True, False), (False, False)]"]
        C3_quadrature_table [of globals0 True True
            "[(True, False), (True, True), (False, True), (False, False)]"]
  by (simp add: eval_defs)

subsection \<open>C4\<close>



subsection \<open>C5\<close>



subsection \<open>C6\<close>

text \<open>
  C6 as stated fails. After a countdown that was cancelled with the phone on the sensor, the
  short press that commits the timer enters \<open>WAIT_PHONE\<close> with \<open>phonePresent\<close> still
  true: nothing clears it.
\<close>

theorem C6_stale_phone_reading_kept:
  "state (run (setup_board True) before_commit) = SET_TIMER \<and>
   phonePresent (run (setup_board True) before_commit) \<and>
   state (onEncoderShortPress (run (setup_board True) before_commit)) = WAIT_PHONE \<and>
   phonePresent (onEncoderShortPress (run (setup_board True) before_commit)) \<and>
   state (readEncoderButton (run (setup_board True) before_commit) True 2360) = WAIT_PHONE \<and>
   phonePresent (readEncoderButton (run (setup_board True) before_commit) True 2360)"
  by (simp add: before_commit_def to_countdown_def eval_defs cong: let_weak_cong)

text \<open>
  C6, amended. The short press that commits the timer enters \<open>WAIT_PHONE\<close> and leaves
  \<open>phonePresent\<close> as it was. While waiting or counting, a phone sample that is not due
  changes nothing, so an old reading stays; a sample that is due replaces it by the level just
  read; and the countdown is started from \<open>WAIT_PHONE\<close> only by a due sample that reads
  the phone as present.
\<close>

theorem C6_commit_keeps_phone_reading:
  "(state s = SET_TIMER \<longrightarrow>
      state (onEncoderShortPress s) = WAIT_PHONE \<and>
      phonePresent (onEncoderShortPress s) = phonePresent s) \<and>
   (\<not> now - lastPhoneCheck s \<ge> phoneCheckInterval \<longrightarrow> phone_task s now ir t1 t2 = s) \<and>
   ((state s = WAIT_PHONE \<or> state s = COUNTDOWN) \<and> now - lastPhoneCheck s \<ge> phoneCheckInterval \<longrightarrow>
      phonePresent (phone_task s now ir t1 t2) = (ir = PHONE_DETECTED_STATE)) \<and>
   (state s = WAIT_PHONE \<and> state (phone_task s now ir t1 t2) = COUNTDOWN \<longrightarrow>
      now - lastPhoneCheck s \<ge> phoneCheckInterval \<and> ir = PHONE_DETECTED_STATE)"
  by (auto simp: onEncoderShortPress_def phone_task_def Let_def startCountdown_def)

theorem C6_commit_keeps_phone_reading_witness:
  "state (run (setup_board True) before_commit) = SET_TIMER \<and>
   phonePresent (onEncoderShortPress (run (setup_board True) before_commit)) \<and>
   phone_task (onEncoderShortPress (run (setup_board True) before_commit)) 900 True 900 900
     = onEncoderShortPress (run (setup_board True) before_commit) \<and>
   \<not> phonePresent
       (phone_task (onEncoderShortPress (run (setup_board True) before_commit)) 2360 True 2360 2360) \<and>
   state (phone_task (onEncoderShortPress (run (setup_board True) before_commit)) 2360 False 2360 2360)
     = COUNTDOWN"
  using C6_commit_keeps_phone_reading [of "run (setup_board True) before_commit" 900 True 900 900]
        C6_commit_keeps_phone_reading
          [of "onEncoderShortPress (run (setup_board True) before_commit)" 900 True 900 900]
        C6_commit_keeps_phone_reading
          [of "onEncoderShortPress (run (setup_board True) before_commit)" 2360 True 2360 2360]
        C6_commit_keeps_phone_reading
          [of "onEncoderShortPress (run (setup_board True) before_commit)" 2360 False 2360 2360]
  by (simp add: before_commit_state phoneCheckInterval_def PHONE_DETECTED_STATE_def
        phone_task_def Let_def startCountdown_def)

subsection \<open>C7\<close>

text \<open>
  C7. After any sequence of interrupts and loop iterations from power-up, a running
  countdown implies the state \<open>COUNTDOWN\<close>. The two operations that leave
  \<open>COUNTDOWN\<close>, the short press and the elapsed deadline, both clear
  \<open>countdownRunning\<close> and go to \<open>IDLE\<close>.
\<close>

theorem C7_running_only_in_countdown:
  "(countdownRunning (run (setup_board found) es) \<longrightarrow>
      state (run (setup_board found) es) = COUNTDOWN) \<and>
   (state s = COUNTDOWN \<longrightarrow>
      \<not> countdownRunning (onEncoderShortPress s) \<and> state (onEncoderShortPress s) = IDLE) \<and>
   (state s = COUNTDOWN \<and> countdownRunning s \<and> countdownEndMillis s \<le> m1 \<longrightarrow>
      \<not> countdownRunning (countdown_task s m1 m2 m3) \<and> state (countdown_task s m1 m2 m3) = IDLE)"
  using reachable_inv [of found es]
  by (simp add: session_inv_def onEncoderShortPress_def countdown_task_def Let_def)

theorem C7_running_only_in_countdown_witness:
  "countdownRunning (run (setup_board True) to_countdown) \<and>
   state (run (setup_board True) to_countdown) = COUNTDOWN \<and>
   countdownEndMillis (run (setup_board True) to_countdown) \<le> 1500620 \<and>
   \<not> countdownRunning (onEncoderShortPress (run (setup_board True) to_countdown)) \<and>
   state (onEncoderShortPress (run (setup_board True) to_countdown)) = IDLE \<and>
   \<not> countdownRunning (countdown_task (run (setup_board True) to_countdown) 1500620 1500620 1500620) \<and>
   state (countdown_task (run (setup_board True) to_countdown) 1500620 1500620 1500620) = IDLE"
  using C7_running_only_in_countdown [of True to_countdown "run (setup_board True) to_countdown"
          1500620 1500620 1500620]
  by (simp add: to_countdown_state)

subsection \<open>C8\<close>

text \<open>
  C8. The loop iteration in which the deadline of the countdown is reached. The presence
  sample is due and waits for the echo (\<open>pulseIn\<close> with a timeout of 30 ms), and the end of
  the countdown shows ``Timer Done'' through \<open>showMessage\<close>, which calls
  \<open>delay(900)\<close>: the iteration sleeps for 900 ms.
\<close>

theorem C8_loop_iteration_sleeps:
  "state (run (setup_board True) to_countdown) = COUNTDOWN \<and>
   trace (run (setup_board True) (to_countdown @ [tick_phone 1500620])) =
     trace (run (setup_board True) to_countdown) @
       [DigitalWrite trigPin False, DelayMicroseconds 2, DigitalWrite trigPin True,
        DelayMicroseconds 10, DigitalWrite trigPin False, PulseIn 30000,
        DigitalWrite relayPin False, DrawMessage ''Timer Done'', Delay 900,
        DigitalWrite buzzerPin False, DigitalWrite buzzerPin False, RtcNow, DrawScreen]"
  by (simp add: to_countdown_def eval_defs cong: let_weak_cong)

subsection \<open>C9\<close>



subsection \<open>C10\<close>

text \<open>
  C10. After any sequence of interrupts and loop iterations from power-up the state is not
  \<open>ABORTED\<close>. A short press during the countdown silences the buzzer, switches the relay
  off, shows the message ``Aborted'' and goes to \<open>IDLE\<close>.
\<close>

theorem C10_aborted_unreachable:
  "state (run (setup_board found) es) \<noteq> ABORTED \<and>
   (state s = COUNTDOWN \<longrightarrow>
      state (onEncoderShortPress s) = IDLE \<and>
      trace (onEncoderShortPress s) =
        trace s @ [DigitalWrite buzzerPin False, DigitalWrite relayPin False,
                   DrawMessage ''Aborted'', Delay 900])"
  using reachable_inv [of found es]
  by (simp add: session_inv_def onEncoderShortPress_def Let_def)

theorem C10_aborted_unreachable_witness:
  "state (run (setup_board True) to_countdown) = COUNTDOWN \<and>
   state (onEncoderShortPress (run (setup_board True) to_countdown)) = IDLE \<and>
   state (run (setup_board True) (to_countdown @ short_press_phone 700)) = IDLE"
  using C10_aborted_unreachable [of True to_countdown "run (setup_board True) to_countdown"]
  by (simp add: to_countdown_state to_countdown_def eval_defs cong: let_weak_cong)

end
